theory Spec2Isabelle
  imports Main "HOL-Library.Word"
begin

section \<open>The platform layer of vsearch (src/arch.cc)\<close>

text \<open>
  The file arch.cc is a shim between the application and the operating system. Every
  function of it is a short body around one or two library calls, chosen by the
  preprocessor. The embedding keeps that shape:
  \<^item> the preprocessor symbols the file tests are a record of booleans (\<open>target\<close>), and
    each \<^verbatim>\<open>#ifdef\<close> chain is an \<open>if\<close> chain in the source's order;
  \<^item> the library and system calls are parameters: records of functions that give the
    answer of each call (\<open>allocator\<close>, \<open>resources\<close>, \<open>files\<close>, \<open>stdlib_random\<close>,
    \<open>entropy\<close>), since their code is the platform's and not the repository's;
  \<^item> a call of the fatal-error reporter ends the process: the functions return an
    \<open>outcome\<close>, and \<open>Fatal\<close> carries the message;
  \<^item> the 64-bit C types (\<^verbatim>\<open>uint64_t\<close>, \<^verbatim>\<open>int64_t\<close>, \<^verbatim>\<open>size_t\<close>, \<^verbatim>\<open>off_t\<close>,
    \<^verbatim>\<open>long\<close> on the LP64 targets, pointers) are \<open>64 word\<close>: the conversions between
    the signed and the unsigned types keep the bits, \<open>sint\<close> reads a word as the
    signed type does and \<open>uint\<close>/\<open>unat\<close> as the unsigned type does; \<^verbatim>\<open>int\<close> results
    that are only handed on are \<open>int\<close>.
  The functions \<^verbatim>\<open>arch_get_user_system_time\<close> (floating point), \<^verbatim>\<open>xstrcasestr\<close> and
  \<^verbatim>\<open>arch_dlsym\<close> are not part of the embedding.
\<close>

datatype 'a outcome = Returns 'a | Fatal string | Uncaught string

text \<open>
  Modelled from the spec: the fatal-error reporter \<^verbatim>\<open>fatal(message)\<close> is declared in
  vsearch.h and defined outside arch.cc; it prints its message and never returns. A
  call of it is the outcome \<open>Fatal message\<close>. \<open>Uncaught\<close> is a C++ exception that no
  handler of the file catches.
\<close>

record target =
  def_WIN32 :: bool
  def_APPLE :: bool
  def_SC_PHYS_PAGES :: bool
  def_SC_PAGESIZE :: bool

subsection \<open>Memory allocation\<close>

type_synonym addr = "64 word"
type_synonym size_t = "64 word"
type_synonym byte = "8 word"

text \<open>The heap: the live blocks by their start address, each with its bytes.\<close>

type_synonym heap = "addr \<Rightarrow> byte list option"

definition nullptr :: addr where
  "nullptr = 0"

definition memalignment :: int where
  "memalignment = 16"

text \<open>
  The allocation calls of the C library. \<open>os_posix_memalign h t alignment size\<close> gives
  the status, the new content of \<^verbatim>\<open>*memptr\<close> (which held \<open>t\<close>) and the new heap; the
  others give the pointer they return and the new heap.
\<close>

record allocator =
  os_posix_memalign :: "heap \<Rightarrow> addr \<Rightarrow> size_t \<Rightarrow> size_t \<Rightarrow> int \<times> addr \<times> heap"
  os_aligned_malloc :: "heap \<Rightarrow> size_t \<Rightarrow> size_t \<Rightarrow> addr \<times> heap"
  os_realloc :: "heap \<Rightarrow> addr \<Rightarrow> size_t \<Rightarrow> addr \<times> heap"
  os_aligned_realloc :: "heap \<Rightarrow> addr \<Rightarrow> size_t \<Rightarrow> size_t \<Rightarrow> addr \<times> heap"
  os_free :: "heap \<Rightarrow> addr \<Rightarrow> heap"
  os_aligned_free :: "heap \<Rightarrow> addr \<Rightarrow> heap"

definition xmalloc :: "target \<Rightarrow> allocator \<Rightarrow> heap \<Rightarrow> size_t \<Rightarrow> (addr \<times> heap) outcome" where
  "xmalloc tgt a h size0 =
     (let size = (if size0 = 0 then 1 else size0);
          t = nullptr;
          (t, h) =
            (if def_WIN32 tgt
             then os_aligned_malloc a h size (word_of_int memalignment)
             else (case os_posix_memalign a h t (word_of_int memalignment) size of
                     (rc, t', h') \<Rightarrow> (if rc \<noteq> 0 then nullptr else t', h')))
      in if t = nullptr
         then Fatal ''Unable to allocate enough memory.''
         else Returns (t, h))"

definition xrealloc :: "target \<Rightarrow> allocator \<Rightarrow> heap \<Rightarrow> addr \<Rightarrow> size_t \<Rightarrow> (addr \<times> heap) outcome" where
  "xrealloc tgt a h ptr size0 =
     (let size = (if size0 = 0 then 1 else size0);
          (t, h) =
            (if def_WIN32 tgt
             then os_aligned_realloc a h ptr size (word_of_int memalignment)
             else os_realloc a h ptr size)
      in if t = nullptr
         then Fatal ''Unable to reallocate enough memory.''
         else Returns (t, h))"

definition xfree :: "target \<Rightarrow> allocator \<Rightarrow> heap \<Rightarrow> addr \<Rightarrow> heap outcome" where
  "xfree tgt a h ptr =
     (if ptr \<noteq> nullptr
      then Returns (if def_WIN32 tgt then os_aligned_free a h ptr else os_free a h ptr)
      else Fatal ''Trying to free a null pointer'')"

subsection \<open>Resource queries\<close>

datatype sc_name = PHYS_PAGES | PAGESIZE | NPROCESSORS_ONLN

record sysinfo_t =
  totalram :: "64 word"
  mem_unit :: "32 word"

text \<open>
  What the system reports: \<open>PeakWorkingSetSize\<close>, \<open>ullTotalPhys\<close>, \<open>dwNumberOfProcessors\<close>
  and \<open>ru_maxrss\<close> are the fields the source reads after \<^verbatim>\<open>GetProcessMemoryInfo\<close>,
  \<^verbatim>\<open>GlobalMemoryStatusEx\<close>, \<^verbatim>\<open>GetSystemInfo\<close> and \<^verbatim>\<open>getrusage\<close> (whose status it does
  not look at); \<open>os_sysctl_memsize ram\<close> is the status of \<^verbatim>\<open>sysctl\<close> and the content of
  the buffer that held \<open>ram\<close>; \<open>os_sysconf\<close> is the \<^verbatim>\<open>long\<close> that \<^verbatim>\<open>sysconf\<close> returns;
  \<open>os_sysinfo\<close> is the status of \<^verbatim>\<open>sysinfo\<close> and the structure it filled.
\<close>

record resources =
  PeakWorkingSetSize :: "64 word"
  ru_maxrss :: "64 word"
  ullTotalPhys :: "64 word"
  os_sysctl_memsize :: "64 word \<Rightarrow> int \<times> 64 word"
  os_sysconf :: "sc_name \<Rightarrow> 64 word"
  os_sysinfo :: "int \<times> sysinfo_t"
  dwNumberOfProcessors :: "32 word"

definition arch_get_memused :: "target \<Rightarrow> resources \<Rightarrow> 64 word outcome" where
  "arch_get_memused tgt r =
     (if def_WIN32 tgt then Returns (PeakWorkingSetSize r)
      else if def_APPLE tgt then Returns (ru_maxrss r)
      else Returns (ru_maxrss r * 1024))"

definition arch_get_memtotal :: "target \<Rightarrow> resources \<Rightarrow> 64 word outcome" where
  "arch_get_memtotal tgt r =
     (if def_WIN32 tgt then Returns (ullTotalPhys r)
      else if def_APPLE tgt then
        (let ram = 0;
             (rc, ram) = os_sysctl_memsize r ram
         in if rc = - 1 then Fatal ''Cannot determine amount of RAM'' else Returns ram)
      else if def_SC_PHYS_PAGES tgt \<and> def_SC_PAGESIZE tgt then
        (let phys_pages = os_sysconf r PHYS_PAGES;
             pagesize = os_sysconf r PAGESIZE
         in if phys_pages = - 1 \<or> pagesize = - 1
            then Fatal ''Cannot determine amount of RAM''
            else Returns (pagesize * phys_pages))
      else
        (case os_sysinfo r of
           (rc, si) \<Rightarrow>
             if rc \<noteq> 0 then Fatal ''Cannot determine amount of RAM''
             else Returns (totalram si * ucast (mem_unit si))))"

text \<open>
  The result type \<^verbatim>\<open>long\<close> has 32 bits on Windows and 64 bits on the other targets; the
  model returns its signed value.
\<close>

definition arch_get_cores :: "target \<Rightarrow> resources \<Rightarrow> int outcome" where
  "arch_get_cores tgt r =
     (if def_WIN32 tgt then Returns (sint (dwNumberOfProcessors r))
      else Returns (sint (os_sysconf r NPROCESSORS_ONLN)))"

subsection \<open>File primitives\<close>

datatype oflag = O_RDONLY | O_WRONLY | O_CREAT | O_TRUNC | O_BINARY

datatype mode_bit = S_IRUSR | S_IWUSR | S_IREAD | S_IWRITE

text \<open>
  Modelled from the spec: \<^verbatim>\<open>xstat_t\<close> is declared in vsearch.h; the spec gives it the
  size in bytes, the modification time and the mode bits.
\<close>

record xstat_t =
  st_size :: "64 word"
  st_mtime :: "64 word"
  st_mode :: "32 word"

text \<open>
  The file calls, by target: \<open>os_fstat\<close>, \<open>os_stat\<close>, \<open>os_lseek\<close>, \<open>os_ftello\<close> and
  \<open>os_open\<close> are the POSIX calls, the \<open>win_\<close> fields are \<^verbatim>\<open>_fstat64\<close>, \<^verbatim>\<open>_stat64\<close>,
  \<^verbatim>\<open>_lseeki64\<close>, \<^verbatim>\<open>_ftelli64\<close> and \<^verbatim>\<open>_open\<close>. A status call gives its status and the
  content of the buffer; a stream is the address of its \<^verbatim>\<open>FILE\<close>. The flags of an open
  call, joined by \<^verbatim>\<open>|\<close> in the source, are a set; the Windows flags \<^verbatim>\<open>_O_RDONLY\<close>,
  \<^verbatim>\<open>_O_WRONLY\<close>, \<^verbatim>\<open>_O_CREAT\<close>, \<^verbatim>\<open>_O_TRUNC\<close>, \<^verbatim>\<open>_O_BINARY\<close> and the modes \<^verbatim>\<open>_S_IREAD\<close>,
  \<^verbatim>\<open>_S_IWRITE\<close> are written without the underscore.
\<close>

record files =
  os_fstat :: "int \<Rightarrow> xstat_t \<Rightarrow> int \<times> xstat_t"
  os_stat :: "string \<Rightarrow> xstat_t \<Rightarrow> int \<times> xstat_t"
  os_lseek :: "int \<Rightarrow> 64 word \<Rightarrow> int \<Rightarrow> 64 word"
  os_ftello :: "addr \<Rightarrow> 64 word"
  os_open :: "string \<Rightarrow> oflag set \<Rightarrow> mode_bit set \<Rightarrow> int"
  win_fstat64 :: "int \<Rightarrow> xstat_t \<Rightarrow> int \<times> xstat_t"
  win_stat64 :: "string \<Rightarrow> xstat_t \<Rightarrow> int \<times> xstat_t"
  win_lseeki64 :: "int \<Rightarrow> 64 word \<Rightarrow> int \<Rightarrow> 64 word"
  win_ftelli64 :: "addr \<Rightarrow> 64 word"
  win_open :: "string \<Rightarrow> oflag set \<Rightarrow> mode_bit set \<Rightarrow> int"

definition xfstat :: "target \<Rightarrow> files \<Rightarrow> int \<Rightarrow> xstat_t \<Rightarrow> (int \<times> xstat_t) outcome" where
  "xfstat tgt f fd buf =
     (if def_WIN32 tgt then Returns (win_fstat64 f fd buf) else Returns (os_fstat f fd buf))"

definition xstat :: "target \<Rightarrow> files \<Rightarrow> string \<Rightarrow> xstat_t \<Rightarrow> (int \<times> xstat_t) outcome" where
  "xstat tgt f path buf =
     (if def_WIN32 tgt then Returns (win_stat64 f path buf) else Returns (os_stat f path buf))"

definition xlseek :: "target \<Rightarrow> files \<Rightarrow> int \<Rightarrow> 64 word \<Rightarrow> int \<Rightarrow> 64 word outcome" where
  "xlseek tgt f fd offset whence =
     (if def_WIN32 tgt then Returns (win_lseeki64 f fd offset whence)
      else Returns (os_lseek f fd offset whence))"

definition xftello :: "target \<Rightarrow> files \<Rightarrow> addr \<Rightarrow> 64 word outcome" where
  "xftello tgt f stream =
     (if def_WIN32 tgt then Returns (win_ftelli64 f stream) else Returns (os_ftello f stream))"

definition xopen_read :: "target \<Rightarrow> files \<Rightarrow> string \<Rightarrow> int outcome" where
  "xopen_read tgt f path =
     (if def_WIN32 tgt then Returns (win_open f path {O_RDONLY, O_BINARY} {})
      else Returns (os_open f path {O_RDONLY} {}))"

definition xopen_write :: "target \<Rightarrow> files \<Rightarrow> string \<Rightarrow> int outcome" where
  "xopen_write tgt f path =
     (if def_WIN32 tgt
      then Returns (win_open f path {O_WRONLY, O_CREAT, O_TRUNC, O_BINARY} {S_IREAD, S_IWRITE})
      else Returns (os_open f path {O_WRONLY, O_CREAT, O_TRUNC} {S_IRUSR, S_IWUSR}))"

subsection \<open>Random numbers\<close>

text \<open>
  The generator of the C++ library: \<open>mt19937_seed s\<close> is \<^verbatim>\<open>std::mt19937 generator(s)\<close>,
  \<open>mt19937_seed_seq\<close> is the construction from a \<^verbatim>\<open>std::seed_seq\<close>, and
  \<open>uniform_int_distribution g\<close> is one \<^verbatim>\<open>distribution(generator)\<close> of a default
  \<^verbatim>\<open>std::uniform_int_distribution<uint64_t>\<close>: the value drawn and the generator
  after the draw.
\<close>

record 'g stdlib_random =
  mt19937_seed :: "32 word \<Rightarrow> 'g"
  mt19937_seed_seq :: "32 word list \<Rightarrow> 'g"
  uniform_int_distribution :: "'g \<Rightarrow> 64 word \<times> 'g"

text \<open>
  What a run finds outside itself when it seeds: the clock \<^verbatim>\<open>std::time(nullptr)\<close>, the
  first value of a \<^verbatim>\<open>std::random_device\<close> (\<open>None\<close>: its construction throws), and the
  four bytes read from /dev/urandom (\<open>None\<close>: the stream is not good).
\<close>

record entropy =
  time_now :: "64 word"
  random_device :: "32 word option"
  dev_urandom :: "32 word option"

text \<open>
  The state of a process that the two routines touch: the seed of the C library's
  \<^verbatim>\<open>rand\<close>, set by \<^verbatim>\<open>srand\<close>, and the function-local static \<open>generator\<close> of
  \<^verbatim>\<open>arch_random\<close>, constructed when control first passes its declaration.
\<close>

record 'g statics =
  c_rand_seed :: "32 word option"
  generator :: "'g option"

definition process_start :: "'g statics" where
  "process_start = \<lparr>c_rand_seed = None, generator = None\<rparr>"

text \<open>
  Modelled from the spec: \<^verbatim>\<open>opt_randseed\<close> is declared in vsearch.h; the spec gives it
  as an unsigned 32-bit configuration input. It is the argument \<open>opt_randseed\<close>. The
  generators that \<^verbatim>\<open>arch_srandom\<close> constructs are local variables of its blocks.
\<close>

definition arch_srandom ::
  "'g stdlib_random \<Rightarrow> target \<Rightarrow> entropy \<Rightarrow> 32 word \<Rightarrow> 'g statics \<Rightarrow> 'g statics outcome" where
  "arch_srandom lib tgt e opt_randseed st =
     (let seed = opt_randseed in
      if seed = 0 then
        (if def_WIN32 tgt then
           (let seed = ucast (time_now e) in Returns (st\<lparr>c_rand_seed := Some seed\<rparr>))
         else
           (case random_device e of
              None \<Rightarrow> Uncaught ''std::random_device''
            | Some rd \<Rightarrow>
                (let seed = rd;
                     seed = (case dev_urandom e of Some bytes \<Rightarrow> bytes | None \<Rightarrow> seed);
                     local_generator = mt19937_seed_seq lib [seed]
                 in Returns st)))
      else
        (if def_WIN32 tgt then Returns (st\<lparr>c_rand_seed := Some seed\<rparr>)
         else (let local_generator = mt19937_seed lib seed in Returns st)))"

definition arch_random :: "'g stdlib_random \<Rightarrow> 'g statics \<Rightarrow> 64 word \<times> 'g statics" where
  "arch_random lib st =
     (let g = (case generator st of None \<Rightarrow> mt19937_seed lib 42 | Some g \<Rightarrow> g);
          (v, g') = uniform_int_distribution lib g
      in (v, st\<lparr>generator := Some g'\<rparr>))"

text \<open>\<open>draws lib n st\<close>: the values of \<open>n\<close> calls of \<^verbatim>\<open>arch_random\<close> in a row.\<close>

fun draws :: "'g stdlib_random \<Rightarrow> nat \<Rightarrow> 'g statics \<Rightarrow> 64 word list \<times> 'g statics" where
  "draws lib 0 st = ([], st)"
| "draws lib (Suc n) st =
     (case arch_random lib st of
        (v, st') \<Rightarrow> (case draws lib n st' of (vs, st'') \<Rightarrow> (v # vs, st'')))"

text \<open>
  A process run: the process starts, seeds once with the configured seed and draws \<open>n\<close>
  values; \<open>None\<close> when the seeding does not return.
\<close>

definition run_draws ::
  "'g stdlib_random \<Rightarrow> target \<Rightarrow> entropy \<Rightarrow> 32 word \<Rightarrow> nat \<Rightarrow> 64 word list option" where
  "run_draws lib tgt e opt_randseed n =
     (case arch_srandom lib tgt e opt_randseed process_start of
        Returns st \<Rightarrow> Some (fst (draws lib n st))
      | Fatal m \<Rightarrow> None
      | Uncaught m \<Rightarrow> None)"

text \<open>The pointer a call hands to its caller, when it returns.\<close>

definition pointer_of :: "(addr \<times> heap) outcome \<Rightarrow> addr option" where
  "pointer_of r = (case r of Returns (t, h) \<Rightarrow> Some t | Fatal m \<Rightarrow> None | Uncaught m \<Rightarrow> None)"

subsection \<open>What the C library promises of an allocation\<close>

text \<open>
  POSIX's contract of \<^verbatim>\<open>posix_memalign\<close> and Microsoft's of \<^verbatim>\<open>_aligned_malloc\<close> and
  \<^verbatim>\<open>_aligned_realloc\<close>: the address of a block they return is a multiple of the
  alignment they were asked for. The C standard's \<^verbatim>\<open>realloc\<close> takes no alignment and
  promises none beyond that of the platform's fundamental types.
\<close>

definition aligned_calls_align :: "allocator \<Rightarrow> bool" where
  "aligned_calls_align a \<longleftrightarrow>
     (\<forall>h t alignment n rc t' h'.
        os_posix_memalign a h t alignment n = (rc, t', h') \<and> rc = 0 \<longrightarrow>
        unat t' mod unat alignment = 0)
     \<and> (\<forall>h n alignment t h'.
        os_aligned_malloc a h n alignment = (t, h') \<longrightarrow> unat t mod unat alignment = 0)
     \<and> (\<forall>h p n alignment t h'.
        os_aligned_realloc a h p n alignment = (t, h') \<longrightarrow> unat t mod unat alignment = 0)"

subsection \<open>What the C library promises of a reallocation\<close>

text \<open>
  The C standard's contract of \<^verbatim>\<open>realloc\<close> (and Microsoft's of \<^verbatim>\<open>_aligned_realloc\<close>)
  for a live block and a size that is not zero: when the call returns a pointer that is
  not null, the block at that pointer has the new size and starts with the bytes of the
  old block, up to the smaller of the two sizes. The repository does not implement the
  call, so a statement about the bytes of a reallocated block is made for the
  allocators that keep this contract.
\<close>

definition realloc_keeps_contents :: "(heap \<Rightarrow> addr \<Rightarrow> size_t \<Rightarrow> addr \<times> heap) \<Rightarrow> bool" where
  "realloc_keeps_contents re \<longleftrightarrow>
     (\<forall>h p n bs t h'.
        h p = Some bs \<and> n \<noteq> 0 \<and> re h p n = (t, h') \<and> t \<noteq> nullptr \<longrightarrow>
        (\<exists>cs. h' t = Some cs \<and> length cs = unat n \<and>
              take (min (length bs) (unat n)) cs = take (min (length bs) (unat n)) bs))"

subsection \<open>Concrete platforms for evaluation\<close>

definition linux_target :: target where
  "linux_target =
     \<lparr>def_WIN32 = False, def_APPLE = False, def_SC_PHYS_PAGES = True, def_SC_PAGESIZE = True\<rparr>"

definition macos_target :: target where
  "macos_target =
     \<lparr>def_WIN32 = False, def_APPLE = True, def_SC_PHYS_PAGES = True, def_SC_PAGESIZE = True\<rparr>"

definition windows_target :: target where
  "windows_target =
     \<lparr>def_WIN32 = True, def_APPLE = False, def_SC_PHYS_PAGES = False, def_SC_PAGESIZE = False\<rparr>"

text \<open>
  A small allocator. It places every new or moved block at the address \<open>q\<close>; a request
  fails (status 12, \<^verbatim>\<open>ENOMEM\<close>, or a null pointer) when \<open>q\<close> is taken. A new block is
  zero-filled; a reallocated block keeps its first bytes and is zero-filled behind them.
\<close>

definition place_block :: "addr \<Rightarrow> heap \<Rightarrow> size_t \<Rightarrow> addr \<times> heap" where
  "place_block q h n =
     (if h q = None then (q, h(q \<mapsto> replicate (unat n) 0)) else (nullptr, h))"

definition move_block :: "addr \<Rightarrow> heap \<Rightarrow> addr \<Rightarrow> size_t \<Rightarrow> addr \<times> heap" where
  "move_block q h p n =
     (case h p of
        None \<Rightarrow> (nullptr, h)
      | Some bs \<Rightarrow>
          if q \<noteq> p \<and> h q \<noteq> None then (nullptr, h)
          else (q, (h(p := None))(q \<mapsto> take (unat n) bs @ replicate (unat n - length bs) 0)))"

definition small_allocator :: "addr \<Rightarrow> allocator" where
  "small_allocator q =
     \<lparr>os_posix_memalign =
        (\<lambda>h t alignment n.
           case place_block q h n of (t', h') \<Rightarrow> if t' = nullptr then (12, t, h) else (0, t', h')),
      os_aligned_malloc = (\<lambda>h n alignment. place_block q h n),
      os_realloc = move_block q,
      os_aligned_realloc = (\<lambda>h p n alignment. move_block q h p n),
      os_free = (\<lambda>h p. h(p := None)),
      os_aligned_free = (\<lambda>h p. h(p := None))\<rparr>"

definition one_block :: heap where
  "one_block = Map.empty(0x1000 \<mapsto> [1, 2, 3, 4])"

text \<open>
  A machine with 16 GiB in pages of 4096 bytes, 8 processors, a peak resident set of
  2048 units of \<^verbatim>\<open>getrusage\<close> and a peak working set of 3145728 bytes; and three that answer a query badly: one that reports no pages, one whose
  \<^verbatim>\<open>sysconf\<close> fails with -1, and one whose processor count is not known.
\<close>

definition some_machine :: resources where
  "some_machine =
     \<lparr>PeakWorkingSetSize = 3145728,
      ru_maxrss = 2048,
      ullTotalPhys = 17179869184,
      os_sysctl_memsize = (\<lambda>ram. (0, 17179869184)),
      os_sysconf = (\<lambda>name. case name of PHYS_PAGES \<Rightarrow> 4194304 | PAGESIZE \<Rightarrow> 4096 | NPROCESSORS_ONLN \<Rightarrow> 8),
      os_sysinfo = (0, \<lparr>totalram = 4194304, mem_unit = 4096\<rparr>),
      dwNumberOfProcessors = 8\<rparr>"

definition no_pages_machine :: resources where
  "no_pages_machine =
     some_machine\<lparr>os_sysconf :=
       (\<lambda>name. case name of PHYS_PAGES \<Rightarrow> 0 | PAGESIZE \<Rightarrow> 4096 | NPROCESSORS_ONLN \<Rightarrow> 8)\<rparr>"

definition failing_sysconf_machine :: resources where
  "failing_sysconf_machine = some_machine\<lparr>os_sysconf := (\<lambda>name. - 1)\<rparr>"

text \<open>A file system on which every call fails with -1.\<close>

definition failing_files :: files where
  "failing_files =
     \<lparr>os_fstat = (\<lambda>fd buf. (- 1, buf)),
      os_stat = (\<lambda>path buf. (- 1, buf)),
      os_lseek = (\<lambda>fd offset whence. - 1),
      os_ftello = (\<lambda>stream. - 1),
      os_open = (\<lambda>path flags mode. - 1),
      win_fstat64 = (\<lambda>fd buf. (- 1, buf)),
      win_stat64 = (\<lambda>path buf. (- 1, buf)),
      win_lseeki64 = (\<lambda>fd offset whence. - 1),
      win_ftelli64 = (\<lambda>stream. - 1),
      win_open = (\<lambda>path flags mode. - 1)\<rparr>"

definition empty_stat :: xstat_t where
  "empty_stat = \<lparr>st_size = 0, st_mtime = 0, st_mode = 0\<rparr>"

text \<open>
  A stand-in for the generator of the C++ library, for evaluation only: a linear
  congruential generator on 64 bits whose state is its last value.
\<close>

definition lcg_random :: "(64 word) stdlib_random" where
  "lcg_random =
     \<lparr>mt19937_seed = (\<lambda>s. ucast s),
      mt19937_seed_seq = (\<lambda>ss. ucast (sum_list ss)),
      uniform_int_distribution =
        (\<lambda>g. (g * 6364136223846793005 + 1442695040888963407,
              g * 6364136223846793005 + 1442695040888963407))\<rparr>"

definition morning :: entropy where
  "morning = \<lparr>time_now = 1700000000, random_device = Some 7, dev_urandom = Some 11\<rparr>"

definition evening :: entropy where
  "evening = \<lparr>time_now = 1700040000, random_device = None, dev_urandom = None\<rparr>"

section \<open>Properties\<close>

subsection \<open>Auxiliary facts\<close>

lemma xmalloc_cases:
  "xmalloc tgt a h n =
     (if def_WIN32 tgt
      then (case os_aligned_malloc a h (if n = 0 then 1 else n) 16 of
              (t, h') \<Rightarrow>
                if t = nullptr then Fatal ''Unable to allocate enough memory.''
                else Returns (t, h'))
      else (case os_posix_memalign a h nullptr 16 (if n = 0 then 1 else n) of
              (rc, t, h') \<Rightarrow>
                if rc \<noteq> 0 \<or> t = nullptr then Fatal ''Unable to allocate enough memory.''
                else Returns (t, h')))"
  by (simp add: xmalloc_def memalignment_def Let_def split: prod.splits)

lemma xrealloc_cases:
  "xrealloc tgt a h p n =
     (case (if def_WIN32 tgt then os_aligned_realloc a h p (if n = 0 then 1 else n) 16
            else os_realloc a h p (if n = 0 then 1 else n)) of
        (t, h') \<Rightarrow>
          if t = nullptr then Fatal ''Unable to reallocate enough memory.''
          else Returns (t, h'))"
  by (simp add: xrealloc_def memalignment_def Let_def split: prod.splits)

lemma sint_minus1: "sint (w :: 64 word) = - 1 \<longleftrightarrow> w = - 1"
  by (auto intro: signed_word_eqI)

lemma uint_minus1: "uint (- 1 :: 64 word) = 18446744073709551615"
  by (simp add: uint_word_ariths)

lemma sint_nonneg:
  fixes w :: "64 word"
  assumes "0 \<le> sint w"
  shows "sint w = uint w"
proof -
  have "sint w < 2 ^ 64"
    using sint_lt [of w] by simp
  with assms have "take_bit 64 (sint w) = sint w"
    by (simp add: take_bit_int_eq_self)
  then show ?thesis
    using uint_sint [of w] by simp
qed

lemma pos_product:
  fixes ps pp :: "64 word"
  assumes "0 < sint pp" and "0 < sint ps" and "sint ps * sint pp < 2 ^ 63"
  shows "0 < ps * pp \<and> uint (ps * pp) = sint ps * sint pp"
proof -
  have pp: "sint pp = uint pp"
    using assms(1) by (simp add: sint_nonneg)
  have ps: "sint ps = uint ps"
    using assms(2) by (simp add: sint_nonneg)
  have "uint ps * uint pp < 2 ^ LENGTH(64)"
    using assms(3) by (simp add: pp ps)
  then have eq: "uint (ps * pp) = uint ps * uint pp"
    using uint_mult_lem [of ps pp] by blast
  have "0 < uint ps * uint pp"
    using assms(1,2) by (simp add: pp ps)
  then have "0 < uint (ps * pp)"
    by (simp add: eq)
  then have "0 < ps * pp"
    by (simp add: word_less_def)
  then show ?thesis
    by (simp add: eq pp ps)
qed

lemma take_smaller:
  assumes "take (min m k) cs = take (min m k) bs" and "n \<le> k"
  shows "take (min m n) cs = take (min m n) bs"
proof -
  have "take (min m n) (take (min m k) cs) = take (min m n) (take (min m k) bs)"
    using assms(1) by simp
  moreover have "min (min m n) (min m k) = min m n"
    using assms(2) by simp
  ultimately show ?thesis
    by (simp only: take_take)
qed

lemma move_block_keeps_contents: "realloc_keeps_contents (move_block q)"
  unfolding realloc_keeps_contents_def
  by (auto simp: move_block_def nullptr_def split: option.splits if_splits)

subsection \<open>The random numbers\<close>

text \<open>
  With a seed that is not zero, the seeding returns and leaves the generator of
  \<^verbatim>\<open>arch_random\<close> as it was: on Windows it calls \<^verbatim>\<open>srand\<close>, elsewhere it constructs a
  generator of its own and drops it.
\<close>

lemma arch_srandom_nonzero:
  "seed \<noteq> 0 \<Longrightarrow>
     \<exists>st'. arch_srandom lib tgt e seed st = Returns st' \<and> generator st' = generator st"
  by (simp add: arch_srandom_def Let_def)

lemma fst_draws_Suc:
  "fst (draws lib (Suc n) st) =
     fst (arch_random lib st) # fst (draws lib n (snd (arch_random lib st)))"
  by (simp split: prod.splits)

lemma arch_random_generator:
  "generator st = generator st' \<Longrightarrow>
     fst (arch_random lib st) = fst (arch_random lib st')
     \<and> generator (snd (arch_random lib st)) = generator (snd (arch_random lib st'))"
  by (simp add: arch_random_def Let_def split: prod.splits)

lemma draws_generator:
  "generator st = generator st' \<Longrightarrow> fst (draws lib n st) = fst (draws lib n st')"
proof (induction n arbitrary: st st')
  case 0
  then show ?case by simp
next
  case (Suc n)
  from arch_random_generator [OF Suc.prems, of lib]
  have v: "fst (arch_random lib st) = fst (arch_random lib st')"
    and g: "generator (snd (arch_random lib st)) = generator (snd (arch_random lib st'))"
    by simp_all
  show ?case
    unfolding fst_draws_Suc using v Suc.IH [OF g] by simp
qed

lemma length_draws: "length (fst (draws lib n st)) = n"
proof (induction n arbitrary: st)
  case 0
  then show ?case by simp
next
  case (Suc n)
  then show ?case unfolding fst_draws_Suc by simp
qed

text \<open>
  The draws of a run do not depend on the configured seed at all: the generator of
  \<^verbatim>\<open>arch_random\<close> is always constructed from 42.
\<close>

lemma run_draws_ignores_seed:
  assumes "seed \<noteq> 0" and "seed' \<noteq> 0"
  shows "run_draws lib tgt e seed n = run_draws lib tgt' e' seed' n"
proof -
  obtain s1 where s1: "arch_srandom lib tgt e seed process_start = Returns s1"
    and g1: "generator s1 = generator (process_start :: 'a statics)"
    using arch_srandom_nonzero [OF assms(1)] by blast
  obtain s2 where s2: "arch_srandom lib tgt' e' seed' process_start = Returns s2"
    and g2: "generator s2 = generator (process_start :: 'a statics)"
    using arch_srandom_nonzero [OF assms(2)] by blast
  have "fst (draws lib n s1) = fst (draws lib n s2)"
    using g1 g2 by (intro draws_generator) simp
  then show ?thesis
    by (simp add: run_draws_def s1 s2)
qed

text \<open>
  Claim C1. For every configured seed that is not zero, two process runs with that seed,
  each seeding with \<^verbatim>\<open>arch_srandom\<close> and then calling \<^verbatim>\<open>arch_random\<close> repeatedly, draw the
  same sequence of values, whatever the clock and the entropy sources give to each run.
\<close>

theorem same_seed_same_draws:
  assumes "opt_randseed \<noteq> 0"
  shows "\<exists>vs. run_draws lib tgt e1 opt_randseed n = Some vs
            \<and> run_draws lib tgt e2 opt_randseed n = Some vs
            \<and> length vs = n"
proof -
  obtain s1 where s1: "arch_srandom lib tgt e1 opt_randseed process_start = Returns s1"
    and g1: "generator s1 = generator (process_start :: 'a statics)"
    using arch_srandom_nonzero [OF assms] by blast
  obtain s2 where s2: "arch_srandom lib tgt e2 opt_randseed process_start = Returns s2"
    and g2: "generator s2 = generator (process_start :: 'a statics)"
    using arch_srandom_nonzero [OF assms] by blast
  have "fst (draws lib n s1) = fst (draws lib n s2)"
    using g1 g2 by (intro draws_generator) simp
  then show ?thesis
    by (simp add: run_draws_def s1 s2 length_draws)
qed

theorem same_seed_same_draws_witness:
  "(42 :: 32 word) \<noteq> 0
   \<and> run_draws lcg_random linux_target morning 42 3
       = Some [10481999410520546993, 4159066171780167020, 7615522811268512075]
   \<and> run_draws lcg_random linux_target evening 42 3
       = Some [10481999410520546993, 4159066171780167020, 7615522811268512075]"
proof -
  have "run_draws lcg_random linux_target morning 42 3
       = Some [10481999410520546993, 4159066171780167020, 7615522811268512075]"
    by (simp add: run_draws_def arch_srandom_def arch_random_def process_start_def
        lcg_random_def linux_target_def numeral_3_eq_3 Let_def)
  with same_seed_same_draws [of 42 lcg_random linux_target morning 3 evening]
  show ?thesis by auto
qed

subsection \<open>The allocator\<close>

text \<open>
  Where the alignment holds: every pointer of \<^verbatim>\<open>xmalloc\<close>, and every pointer of
  \<^verbatim>\<open>xrealloc\<close> on Windows, is a multiple of 16 when the aligned calls of the library
  keep their contract.
\<close>

lemma aligned_paths:
  assumes "aligned_calls_align a"
  shows "xmalloc tgt a h n = Returns (t, h') \<Longrightarrow> unat t mod 16 = 0"
    and "def_WIN32 tgt \<Longrightarrow> xrealloc tgt a h p n = Returns (t, h') \<Longrightarrow> unat t mod 16 = 0"
proof -
  have m: "unat t' mod 16 = 0" if "os_posix_memalign a h0 t0 16 k = (0, t', h1)"
    for h0 t0 k t' h1
    using assms that unfolding aligned_calls_align_def by fastforce
  have w: "unat t' mod 16 = 0" if "os_aligned_malloc a h0 k 16 = (t', h1)" for h0 k t' h1
    using assms that unfolding aligned_calls_align_def by fastforce
  have r: "unat t' mod 16 = 0" if "os_aligned_realloc a h0 p0 k 16 = (t', h1)"
    for h0 p0 k t' h1
    using assms that unfolding aligned_calls_align_def by fastforce
  show "xmalloc tgt a h n = Returns (t, h') \<Longrightarrow> unat t mod 16 = 0"
    by (auto simp: xmalloc_cases split: prod.splits if_splits dest: m w)
  show "def_WIN32 tgt \<Longrightarrow> xrealloc tgt a h p n = Returns (t, h') \<Longrightarrow> unat t mod 16 = 0"
    by (auto simp: xrealloc_cases split: prod.splits if_splits dest: r)
qed

text \<open>
  Claim C2. Every pointer that \<^verbatim>\<open>xmalloc\<close> or \<^verbatim>\<open>xrealloc\<close> returns is a multiple of the
  alignment 16, on every target. The code at a failing input: on a target that is not
  Windows \<^verbatim>\<open>xrealloc\<close> hands on the pointer of the plain \<^verbatim>\<open>realloc\<close>; the block that
  \<^verbatim>\<open>xmalloc\<close> put at the address 0x1000 is moved by the library to the address 0x2008,
  and \<^verbatim>\<open>xrealloc\<close> returns 0x2008, which leaves 8 modulo 16.
\<close>

theorem xrealloc_posix_not_aligned:
  "pointer_of (xmalloc linux_target (small_allocator 0x1000) Map.empty 4) = Some 0x1000
   \<and> pointer_of (xrealloc linux_target (small_allocator 0x2008) one_block 0x1000 8) = Some 0x2008
   \<and> unat (0x2008 :: addr) mod nat memalignment = 8"
  by (simp add: pointer_of_def xmalloc_def xrealloc_def linux_target_def small_allocator_def
      place_block_def move_block_def one_block_def nullptr_def memalignment_def)

text \<open>
  Claim C3. \<^verbatim>\<open>xmalloc\<close> and \<^verbatim>\<open>xrealloc\<close> treat the size zero as the size one; when the
  underlying allocation fails (a status of \<^verbatim>\<open>posix_memalign\<close> that is not zero, a null
  pointer of \<^verbatim>\<open>_aligned_malloc\<close>, \<^verbatim>\<open>realloc\<close> or \<^verbatim>\<open>_aligned_realloc\<close>) they end the
  process through the fatal-error reporter; and a pointer they return is never null.
\<close>

theorem xmalloc_xrealloc_never_null:
  "xmalloc tgt a h 0 = xmalloc tgt a h 1
   \<and> xrealloc tgt a h ptr 0 = xrealloc tgt a h ptr 1
   \<and> (\<not> def_WIN32 tgt \<and> fst (os_posix_memalign a h nullptr 16 (if n = 0 then 1 else n)) \<noteq> 0
        \<longrightarrow> xmalloc tgt a h n = Fatal ''Unable to allocate enough memory.'')
   \<and> (def_WIN32 tgt \<and> fst (os_aligned_malloc a h (if n = 0 then 1 else n) 16) = nullptr
        \<longrightarrow> xmalloc tgt a h n = Fatal ''Unable to allocate enough memory.'')
   \<and> (\<not> def_WIN32 tgt \<and> fst (os_realloc a h ptr (if n = 0 then 1 else n)) = nullptr
        \<longrightarrow> xrealloc tgt a h ptr n = Fatal ''Unable to reallocate enough memory.'')
   \<and> (def_WIN32 tgt \<and> fst (os_aligned_realloc a h ptr (if n = 0 then 1 else n) 16) = nullptr
        \<longrightarrow> xrealloc tgt a h ptr n = Fatal ''Unable to reallocate enough memory.'')
   \<and> (\<forall>t h'. xmalloc tgt a h n = Returns (t, h') \<longrightarrow> t \<noteq> nullptr)
   \<and> (\<forall>t h'. xrealloc tgt a h ptr n = Returns (t, h') \<longrightarrow> t \<noteq> nullptr)"
  by (auto simp: xmalloc_cases xrealloc_cases split: prod.splits if_splits)

theorem xmalloc_xrealloc_never_null_witness:
  "fst (os_posix_memalign (small_allocator 0x1000) one_block nullptr 16 1) = 12
   \<and> xmalloc linux_target (small_allocator 0x1000) one_block 0
       = Fatal ''Unable to allocate enough memory.''
   \<and> fst (os_realloc (small_allocator 0x1000) one_block 0x3000 1) = nullptr
   \<and> xrealloc linux_target (small_allocator 0x1000) one_block 0x3000 0
       = Fatal ''Unable to reallocate enough memory.''
   \<and> pointer_of (xmalloc linux_target (small_allocator 0x2000) one_block 0) = Some 0x2000
   \<and> pointer_of (xrealloc windows_target (small_allocator 0x2000) one_block 0x1000 0) = Some 0x2000
   \<and> (0x2000 :: addr) \<noteq> nullptr"
  using xmalloc_xrealloc_never_null [of linux_target "small_allocator 0x1000" one_block "0x3000" 0]
    xmalloc_xrealloc_never_null [of windows_target "small_allocator 0x2000" one_block "0x1000" 0]
  by (simp add: pointer_of_def xmalloc_cases xrealloc_cases linux_target_def windows_target_def
      small_allocator_def place_block_def move_block_def one_block_def nullptr_def)

text \<open>
  Claim C4. \<^verbatim>\<open>xfree\<close> of a null pointer always ends the process through the fatal-error
  reporter; \<^verbatim>\<open>xfree\<close> of a pointer that is not null releases the block through the
  deallocation call of the target (\<^verbatim>\<open>_aligned_free\<close> on Windows, \<^verbatim>\<open>free\<close> elsewhere) and
  returns.
\<close>

theorem xfree_null_is_fatal:
  "xfree tgt a h nullptr = Fatal ''Trying to free a null pointer''
   \<and> (ptr \<noteq> nullptr \<longrightarrow>
        xfree tgt a h ptr =
          Returns (if def_WIN32 tgt then os_aligned_free a h ptr else os_free a h ptr))"
  by (simp add: xfree_def)

theorem xfree_null_is_fatal_witness:
  "xfree linux_target (small_allocator 0x2000) one_block nullptr
     = Fatal ''Trying to free a null pointer''
   \<and> (0x1000 :: addr) \<noteq> nullptr
   \<and> xfree linux_target (small_allocator 0x2000) one_block 0x1000 = Returns Map.empty"
  using xfree_null_is_fatal [of linux_target "small_allocator 0x2000" one_block "0x1000"]
  by (simp add: linux_target_def small_allocator_def one_block_def nullptr_def)

text \<open>
  Claim C5. For a live block of \<open>m\<close> bytes and every new size \<open>n\<close>, the block that
  \<^verbatim>\<open>xrealloc\<close> returns starts with the first \<open>min m n\<close> bytes of the old block; when
  \<open>n\<close> is at least \<open>m\<close> it starts with all of them. The bytes are copied by the library's
  \<^verbatim>\<open>realloc\<close> (\<^verbatim>\<open>_aligned_realloc\<close> on Windows), so the statement is for the libraries that
  keep the contract of that call; \<^verbatim>\<open>xrealloc\<close> hands on the pointer and a size that is
  never smaller than \<open>n\<close>.
\<close>

theorem xrealloc_keeps_contents:
  assumes "realloc_keeps_contents (os_realloc a)"
    and "realloc_keeps_contents (\<lambda>h p n. os_aligned_realloc a h p n (word_of_int memalignment))"
    and "h ptr = Some bs"
    and "xrealloc tgt a h ptr n = Returns (t, h')"
  shows "\<exists>cs. h' t = Some cs
           \<and> take (min (length bs) (unat n)) cs = take (min (length bs) (unat n)) bs
           \<and> (length bs \<le> unat n \<longrightarrow> take (length bs) cs = bs)"
proof -
  define k where "k = (if n = 0 then 1 else n)"
  define re where
    "re = (if def_WIN32 tgt then (\<lambda>h p n. os_aligned_realloc a h p n 16) else os_realloc a)"
  have re: "realloc_keeps_contents re"
    using assms(1,2) by (simp add: re_def memalignment_def)
  have k: "k \<noteq> 0" and nk: "unat n \<le> unat k"
    by (auto simp: k_def)
  from assms(4) have call: "re h ptr k = (t, h')" and t: "t \<noteq> nullptr"
    by (auto simp: xrealloc_cases re_def k_def split: prod.splits if_splits)
  from re assms(3) k call t obtain cs where cs: "h' t = Some cs"
    and eq: "take (min (length bs) (unat k)) cs = take (min (length bs) (unat k)) bs"
    unfolding realloc_keeps_contents_def by blast
  have short: "take (min (length bs) (unat n)) cs = take (min (length bs) (unat n)) bs"
    using eq nk by (rule take_smaller)
  then have "take (length bs) cs = bs" if "length bs \<le> unat n"
    using that by (simp add: min_absorb1)
  with cs short show ?thesis by blast
qed

theorem xrealloc_keeps_contents_witness:
  "one_block 0x1000 = Some [1, 2, 3, 4]
   \<and> (\<exists>h'. xrealloc linux_target (small_allocator 0x2000) one_block 0x1000 8 = Returns (0x2000, h')
          \<and> h' 0x2000 = Some [1, 2, 3, 4, 0, 0, 0, 0])"
proof -
  have a: "realloc_keeps_contents (os_realloc (small_allocator 0x2000))"
    by (simp add: small_allocator_def move_block_keeps_contents)
  have b: "realloc_keeps_contents
      (\<lambda>h p n. os_aligned_realloc (small_allocator 0x2000) h p n (word_of_int memalignment))"
    by (simp add: small_allocator_def move_block_keeps_contents)
  have c: "one_block 0x1000 = Some [1, 2, 3, 4]"
    by (simp add: one_block_def)
  have d: "xrealloc linux_target (small_allocator 0x2000) one_block 0x1000 8 =
      Returns (0x2000, (one_block(0x1000 := None))(0x2000 \<mapsto> [1, 2, 3, 4, 0, 0, 0, 0]))"
  proof -
    have "replicate 4 (0 :: byte) = [0, 0, 0, 0]"
      by (simp add: numeral_eq_Suc)
    then show ?thesis
      by (simp add: xrealloc_cases linux_target_def small_allocator_def move_block_def
          one_block_def nullptr_def)
  qed
  from xrealloc_keeps_contents [OF a b c d] c d show ?thesis
    by simp
qed

subsection \<open>The resource queries\<close>

text \<open>
  The other paths of \<^verbatim>\<open>arch_get_memtotal\<close>: on Windows the value of \<^verbatim>\<open>ullTotalPhys\<close> is
  returned and the status of \<^verbatim>\<open>GlobalMemoryStatusEx\<close> is not looked at; on Apple the
  value that \<^verbatim>\<open>sysctl\<close> stored is returned unless its status is -1; without the two
  \<^verbatim>\<open>sysconf\<close> names the product of \<^verbatim>\<open>totalram\<close> and \<^verbatim>\<open>mem_unit\<close> is returned unless
  \<^verbatim>\<open>sysinfo\<close> gives a status that is not zero.
\<close>

lemma arch_get_memtotal_other_paths:
  "def_WIN32 tgt \<Longrightarrow> arch_get_memtotal tgt r = Returns (ullTotalPhys r)"
  "\<not> def_WIN32 tgt \<Longrightarrow> def_APPLE tgt \<Longrightarrow>
     arch_get_memtotal tgt r =
       (if fst (os_sysctl_memsize r 0) = - 1 then Fatal ''Cannot determine amount of RAM''
        else Returns (snd (os_sysctl_memsize r 0)))"
  "\<not> def_WIN32 tgt \<Longrightarrow> \<not> def_APPLE tgt \<Longrightarrow> \<not> (def_SC_PHYS_PAGES tgt \<and> def_SC_PAGESIZE tgt) \<Longrightarrow>
     arch_get_memtotal tgt r =
       (if fst (os_sysinfo r) \<noteq> 0 then Fatal ''Cannot determine amount of RAM''
        else Returns (totalram (snd (os_sysinfo r)) * ucast (mem_unit (snd (os_sysinfo r)))))"
  by (auto simp: arch_get_memtotal_def Let_def split: prod.splits)

text \<open>
  Claim C6, as the spec has it, asks that a result of \<^verbatim>\<open>arch_get_memtotal\<close> is always
  greater than zero. On a machine whose \<^verbatim>\<open>sysconf\<close> reports no physical pages both
  queries succeed (neither is -1), the function returns, and the result is 0.
\<close>

theorem memtotal_zero_counterexample:
  "os_sysconf no_pages_machine PHYS_PAGES \<noteq> - 1
   \<and> os_sysconf no_pages_machine PAGESIZE \<noteq> - 1
   \<and> arch_get_memtotal linux_target no_pages_machine = Returns 0"
  by (simp add: arch_get_memtotal_def linux_target_def no_pages_machine_def some_machine_def)

text \<open>
  Claim C6, amended. On a target that takes the \<^verbatim>\<open>sysconf\<close> path, \<^verbatim>\<open>arch_get_memtotal\<close>
  returns the 64-bit product of the page size and the page count when neither query
  returns -1, and ends the process through the fatal-error reporter when either does.
  When it returns, the result is greater than zero and is the product as a number
  provided that both values are positive and the product is below \<open>2 ^ 63\<close>; and the
  result depends on nothing but the two answers of \<^verbatim>\<open>sysconf\<close>, so repeated calls that
  get the same answers return the same value.
\<close>

theorem arch_get_memtotal_sysconf:
  assumes "\<not> def_WIN32 tgt" and "\<not> def_APPLE tgt"
    and "def_SC_PHYS_PAGES tgt" and "def_SC_PAGESIZE tgt"
  shows "(os_sysconf r PHYS_PAGES \<noteq> - 1 \<and> os_sysconf r PAGESIZE \<noteq> - 1 \<longrightarrow>
            arch_get_memtotal tgt r = Returns (os_sysconf r PAGESIZE * os_sysconf r PHYS_PAGES))
       \<and> (os_sysconf r PHYS_PAGES = - 1 \<or> os_sysconf r PAGESIZE = - 1 \<longrightarrow>
            arch_get_memtotal tgt r = Fatal ''Cannot determine amount of RAM'')
       \<and> (\<forall>v. arch_get_memtotal tgt r = Returns v
              \<and> 0 < sint (os_sysconf r PHYS_PAGES) \<and> 0 < sint (os_sysconf r PAGESIZE)
              \<and> sint (os_sysconf r PAGESIZE) * sint (os_sysconf r PHYS_PAGES) < 2 ^ 63 \<longrightarrow>
              0 < v \<and> uint v = sint (os_sysconf r PAGESIZE) * sint (os_sysconf r PHYS_PAGES))
       \<and> (\<forall>r'. os_sysconf r' PHYS_PAGES = os_sysconf r PHYS_PAGES
               \<and> os_sysconf r' PAGESIZE = os_sysconf r PAGESIZE \<longrightarrow>
               arch_get_memtotal tgt r' = arch_get_memtotal tgt r)"
proof -
  let ?pp = "os_sysconf r PHYS_PAGES" and ?ps = "os_sysconf r PAGESIZE"
  have "0 < ?ps * ?pp \<and> uint (?ps * ?pp) = sint ?ps * sint ?pp"
    if "0 < sint ?pp" and "0 < sint ?ps" and "sint ?ps * sint ?pp < 2 ^ 63"
    using that by (rule pos_product)
  with assms show ?thesis
    by (auto simp: arch_get_memtotal_def Let_def)
qed

theorem arch_get_memtotal_sysconf_witness:
  "\<not> def_WIN32 linux_target \<and> \<not> def_APPLE linux_target
   \<and> def_SC_PHYS_PAGES linux_target \<and> def_SC_PAGESIZE linux_target
   \<and> arch_get_memtotal linux_target some_machine = Returns 17179869184
   \<and> arch_get_memtotal linux_target failing_sysconf_machine
       = Fatal ''Cannot determine amount of RAM''
   \<and> (0 :: 64 word) < 17179869184"
  using arch_get_memtotal_sysconf [of linux_target some_machine]
    arch_get_memtotal_sysconf [of linux_target failing_sysconf_machine]
  by (simp add: linux_target_def some_machine_def failing_sysconf_machine_def)

text \<open>
  Claim C7. \<^verbatim>\<open>arch_get_memused\<close> returns the peak resident memory in bytes on every
  target: where the system reports \<^verbatim>\<open>ru_maxrss\<close> in kilobytes (Linux, the targets that
  are neither Windows nor Apple) the result is the reported value times 1024, and where
  it reports bytes the result is the reported value unchanged (\<^verbatim>\<open>ru_maxrss\<close> on macOS,
  \<^verbatim>\<open>PeakWorkingSetSize\<close> on Windows). The product is the one of 64-bit words; it is the
  product of the numbers for every reported value below \<open>2 ^ 53\<close>, where the
  multiplication of the source does not overflow.
\<close>

theorem arch_get_memused_in_bytes:
  "(def_WIN32 tgt \<longrightarrow> arch_get_memused tgt r = Returns (PeakWorkingSetSize r))
   \<and> (\<not> def_WIN32 tgt \<and> \<not> def_APPLE tgt \<longrightarrow>
      arch_get_memused tgt r = Returns (ru_maxrss r * 1024))
   \<and> (\<not> def_WIN32 tgt \<and> def_APPLE tgt \<longrightarrow> arch_get_memused tgt r = Returns (ru_maxrss r))
   \<and> (\<not> def_WIN32 tgt \<and> \<not> def_APPLE tgt \<and> uint (ru_maxrss r) < 2 ^ 53 \<longrightarrow>
        (\<exists>v. arch_get_memused tgt r = Returns v \<and> uint v = uint (ru_maxrss r) * 1024))"
proof -
  have "uint (ru_maxrss r * 1024) = uint (ru_maxrss r) * 1024" if "uint (ru_maxrss r) < 2 ^ 53"
  proof -
    have "uint (ru_maxrss r) * uint (1024 :: 64 word) < 2 ^ LENGTH(64)"
      using that by simp
    then show ?thesis
      using uint_mult_lem [of "ru_maxrss r" "1024 :: 64 word"] by simp
  qed
  then show ?thesis
    by (simp add: arch_get_memused_def)
qed

theorem arch_get_memused_in_bytes_witness:
  "arch_get_memused linux_target some_machine = Returns 2097152
   \<and> arch_get_memused macos_target some_machine = Returns 2048
   \<and> arch_get_memused windows_target some_machine = Returns 3145728"
  using arch_get_memused_in_bytes [of linux_target some_machine]
    arch_get_memused_in_bytes [of macos_target some_machine]
    arch_get_memused_in_bytes [of windows_target some_machine]
  by (simp add: linux_target_def macos_target_def windows_target_def some_machine_def)

text \<open>
  Claim C8, as the spec has it, asks that \<^verbatim>\<open>arch_get_cores\<close> returns at least 1 for every
  result of the query. When \<^verbatim>\<open>sysconf\<close> fails with -1 the function returns -1.
\<close>

theorem cores_failure_counterexample:
  "sint (os_sysconf failing_sysconf_machine NPROCESSORS_ONLN) = - 1
   \<and> arch_get_cores linux_target failing_sysconf_machine = Returns (- 1)"
  by (simp add: arch_get_cores_def linux_target_def failing_sysconf_machine_def)

text \<open>
  Claim C8, amended. \<^verbatim>\<open>arch_get_cores\<close> always returns, and returns the result of the
  query of the system unchanged (\<^verbatim>\<open>dwNumberOfProcessors\<close> on Windows, the value of
  \<^verbatim>\<open>sysconf(_SC_NPROCESSORS_ONLN)\<close> elsewhere); the value it returns is at least 1
  whenever the result of the query is at least 1.
\<close>

theorem arch_get_cores_hands_on:
  "arch_get_cores tgt r =
     Returns (if def_WIN32 tgt then sint (dwNumberOfProcessors r)
              else sint (os_sysconf r NPROCESSORS_ONLN))
   \<and> (1 \<le> (if def_WIN32 tgt then sint (dwNumberOfProcessors r)
              else sint (os_sysconf r NPROCESSORS_ONLN)) \<longrightarrow>
        (\<exists>n. arch_get_cores tgt r = Returns n \<and> 1 \<le> n))"
  by (simp add: arch_get_cores_def)

theorem arch_get_cores_hands_on_witness:
  "arch_get_cores linux_target some_machine = Returns 8
   \<and> arch_get_cores windows_target some_machine = Returns 8"
  using arch_get_cores_hands_on [of linux_target some_machine]
    arch_get_cores_hands_on [of windows_target some_machine]
  by (simp add: linux_target_def windows_target_def some_machine_def)

subsection \<open>The file primitives\<close>

text \<open>
  Claim C9. Each of \<^verbatim>\<open>xopen_read\<close>, \<^verbatim>\<open>xopen_write\<close>, \<^verbatim>\<open>xstat\<close>, \<^verbatim>\<open>xfstat\<close>, \<^verbatim>\<open>xlseek\<close>
  and \<^verbatim>\<open>xftello\<close> returns to its caller, on every input, with the result of the call of
  the system; so when that call fails the caller gets its error indicator (the
  descriptor -1, a status that is not zero, the offset -1) and the process is not ended.
\<close>

theorem file_primitives_hand_on_failure:
  "(\<exists>fd. xopen_read tgt f path = Returns fd
        \<and> fd = (if def_WIN32 tgt then win_open f path {O_RDONLY, O_BINARY} {}
                 else os_open f path {O_RDONLY} {})
        \<and> ((if def_WIN32 tgt then win_open f path {O_RDONLY, O_BINARY} {}
             else os_open f path {O_RDONLY} {}) = - 1 \<longrightarrow> fd = - 1))
   \<and> (\<exists>fd. xopen_write tgt f path = Returns fd
        \<and> fd = (if def_WIN32 tgt
                 then win_open f path {O_WRONLY, O_CREAT, O_TRUNC, O_BINARY} {S_IREAD, S_IWRITE}
                 else os_open f path {O_WRONLY, O_CREAT, O_TRUNC} {S_IRUSR, S_IWUSR})
        \<and> ((if def_WIN32 tgt
             then win_open f path {O_WRONLY, O_CREAT, O_TRUNC, O_BINARY} {S_IREAD, S_IWRITE}
             else os_open f path {O_WRONLY, O_CREAT, O_TRUNC} {S_IRUSR, S_IWUSR}) = - 1
            \<longrightarrow> fd = - 1))
   \<and> (\<exists>rc buf'. xstat tgt f path buf = Returns (rc, buf')
        \<and> rc = fst (if def_WIN32 tgt then win_stat64 f path buf else os_stat f path buf)
        \<and> (fst (if def_WIN32 tgt then win_stat64 f path buf else os_stat f path buf) \<noteq> 0
            \<longrightarrow> rc \<noteq> 0))
   \<and> (\<exists>rc buf'. xfstat tgt f fd buf = Returns (rc, buf')
        \<and> rc = fst (if def_WIN32 tgt then win_fstat64 f fd buf else os_fstat f fd buf)
        \<and> (fst (if def_WIN32 tgt then win_fstat64 f fd buf else os_fstat f fd buf) \<noteq> 0
            \<longrightarrow> rc \<noteq> 0))
   \<and> (\<exists>v. xlseek tgt f fd offset whence = Returns v
        \<and> v = (if def_WIN32 tgt then win_lseeki64 f fd offset whence
                else os_lseek f fd offset whence)
        \<and> (sint (if def_WIN32 tgt then win_lseeki64 f fd offset whence
                  else os_lseek f fd offset whence) = - 1 \<longrightarrow> v = - 1))
   \<and> (\<exists>v. xftello tgt f stream = Returns v
        \<and> v = (if def_WIN32 tgt then win_ftelli64 f stream else os_ftello f stream)
        \<and> (sint (if def_WIN32 tgt then win_ftelli64 f stream else os_ftello f stream) = - 1
            \<longrightarrow> v = - 1))"
  by (simp add: xopen_read_def xopen_write_def xstat_def xfstat_def xlseek_def xftello_def
      sint_minus1 prod_eq_iff)

theorem file_primitives_hand_on_failure_witness:
  "os_open failing_files ''reads.fasta'' {O_RDONLY} {} = - 1
   \<and> xopen_read linux_target failing_files ''reads.fasta'' = Returns (- 1)
   \<and> xopen_write linux_target failing_files ''reads.fasta'' = Returns (- 1)
   \<and> xstat linux_target failing_files ''reads.fasta'' empty_stat = Returns (- 1, empty_stat)
   \<and> xfstat linux_target failing_files 3 empty_stat = Returns (- 1, empty_stat)
   \<and> xlseek linux_target failing_files 3 0 0 = Returns (- 1)
   \<and> xftello linux_target failing_files 4096 = Returns (- 1)"
  using file_primitives_hand_on_failure
    [of linux_target failing_files "''reads.fasta''" empty_stat 3 0 0 4096]
  by (simp add: failing_files_def linux_target_def xstat_def xfstat_def)

text \<open>
  Claim C10. \<^verbatim>\<open>xlseek\<close> and \<^verbatim>\<open>xftello\<close> return an unsigned 64-bit value. When the
  underlying seek or tell fails with the signed value -1, the value the caller gets is
  \<open>2 ^ 64 - 1\<close>; read as the unsigned value it is, it is not negative, so a test for a
  negative result does not see the failure.
\<close>

theorem seek_tell_failure_is_max:
  "(sint (if def_WIN32 tgt then win_lseeki64 f fd offset whence
          else os_lseek f fd offset whence) = - 1
      \<longrightarrow> (\<exists>v. xlseek tgt f fd offset whence = Returns v \<and> uint v = 2 ^ 64 - 1 \<and> \<not> uint v < 0))
   \<and> (sint (if def_WIN32 tgt then win_ftelli64 f stream else os_ftello f stream) = - 1
      \<longrightarrow> (\<exists>v. xftello tgt f stream = Returns v \<and> uint v = 2 ^ 64 - 1 \<and> \<not> uint v < 0))"
  by (auto simp: xlseek_def xftello_def sint_minus1 uint_minus1)

theorem seek_tell_failure_is_max_witness:
  "sint (os_lseek failing_files 3 0 0) = - 1
   \<and> xlseek linux_target failing_files 3 0 0 = Returns 18446744073709551615
   \<and> sint (win_ftelli64 failing_files 4096) = - 1
   \<and> xftello windows_target failing_files 4096 = Returns 18446744073709551615"
  using seek_tell_failure_is_max [of linux_target failing_files 3 0 0 4096]
    seek_tell_failure_is_max [of windows_target failing_files 3 0 0 4096]
  by (simp add: xlseek_def xftello_def failing_files_def linux_target_def windows_target_def)

end
